theory Spec2Isabelle
  imports Complex_Main
begin

section \<open>Python values, exceptions and the HTTP transport\<close>

text \<open>
  The client of \<^verbatim>\<open>src/genta_api/api.py\<close> is dynamically typed: every argument is
  an arbitrary Python object that ends up inside the \<^verbatim>\<open>json=\<close> payload. The
  values that can be written there are modelled by \<open>pyval\<close>. A dictionary is an
  association list in insertion order whose keys are strings (the keys are
  distinct, as in Python); a float is denoted by the real number of its literal.
\<close>

datatype pyval =
    PyNone
  | PyBool bool
  | PyInt int
  | PyFloat real
  | PyStr string
  | PyList "pyval list"
  | PyDict "(string \<times> pyval) list"

text \<open>
  Exceptions are values. \<open>ValueError\<close> carries its message; \<open>RequestException\<close>
  and \<open>JSONDecodeError\<close> are the failures of \<^verbatim>\<open>requests.post\<close> and of
  \<^verbatim>\<open>response.json()\<close>.
\<close>

datatype exn =
    TypeError
  | KeyError
  | ValueError string
  | RequestException
  | JSONDecodeError

text \<open>
  \<^verbatim>\<open>obj[key]\<close> for a string key: only a dict accepts it. A list or a string
  wants an integer index (\<^verbatim>\<open>TypeError: list indices must be integers or slices,
  not str\<close>), the other values are not subscriptable at all.
\<close>

fun py_getitem :: "pyval \<Rightarrow> string \<Rightarrow> exn + pyval" where
  "py_getitem (PyDict d) k = (case map_of d k of None \<Rightarrow> Inl KeyError | Some v \<Rightarrow> Inr v)"
| "py_getitem (PyList xs) k = Inl TypeError"
| "py_getitem (PyStr s) k = Inl TypeError"
| "py_getitem PyNone k = Inl TypeError"
| "py_getitem (PyBool b) k = Inl TypeError"
| "py_getitem (PyInt n) k = Inl TypeError"
| "py_getitem (PyFloat x) k = Inl TypeError"

text \<open>
  \<^verbatim>\<open>for i in obj\<close>: a list yields its elements, a dict its keys, a string its
  characters; the other values are not iterable.
\<close>

fun py_iter :: "pyval \<Rightarrow> exn + pyval list" where
  "py_iter (PyList xs) = Inr xs"
| "py_iter (PyDict d) = Inr (map (\<lambda>kv. PyStr (fst kv)) d)"
| "py_iter (PyStr s) = Inr (map (\<lambda>c. PyStr [c]) s)"
| "py_iter PyNone = Inl TypeError"
| "py_iter (PyBool b) = Inl TypeError"
| "py_iter (PyInt n) = Inl TypeError"
| "py_iter (PyFloat x) = Inl TypeError"

text \<open>
  The transport is the external collaborator \<^verbatim>\<open>requests.post(url, json=..., headers=...)\<close>.
  It either raises or answers with a response, whose \<^verbatim>\<open>.json()\<close> either raises or
  gives the deserialized body, and whose \<^verbatim>\<open>.status_code\<close> is an integer.
\<close>

record http_call =
  url :: string
  json_payload :: pyval
  headers :: "(string \<times> string) list"

record response =
  json :: "exn + pyval"
  status_code :: int

type_synonym transport = "http_call \<Rightarrow> exn + response"

section \<open>The client\<close>

text \<open>
  The state the two operations run in: the \<^verbatim>\<open>token\<close> attribute that
  \<^verbatim>\<open>__init__\<close> stores in the instance, the two list objects that the
  \<^verbatim>\<open>def\<close> statements created once for the default of \<^verbatim>\<open>stop\<close> (one per method;
  every call that leaves \<^verbatim>\<open>stop\<close> out refers to that same object), and the
  requests handed to the transport so far.
\<close>

record state =
  token :: pyval
  chat_stop_default :: pyval
  text_stop_default :: pyval
  sent :: "http_call list"

text \<open>
  Loading the module evaluates the two \<^verbatim>\<open>[]\<close> defaults; \<^verbatim>\<open>GentaAPI(token)\<close>
  stores the token.
\<close>

definition init :: "pyval \<Rightarrow> state" where
  "init tok = \<lparr>token = tok, chat_stop_default = PyList [], text_stop_default = PyList [],
     sent = []\<rparr>"

text \<open>
  The keyword arguments of a call: \<open>None\<close> for an argument the caller leaves out,
  \<open>Some v\<close> for one it passes.
\<close>

record kwargs =
  model_name :: "pyval option"
  best_of :: "pyval option"
  decoder_input_details :: "pyval option"
  details :: "pyval option"
  do_sample :: "pyval option"
  max_new_tokens :: "pyval option"
  repetition_penalty :: "pyval option"
  return_full_text :: "pyval option"
  seed :: "pyval option"
  stop :: "pyval option"
  temperature :: "pyval option"
  top_k :: "pyval option"
  top_n_tokens :: "pyval option"
  top_p :: "pyval option"
  truncate_kw :: "pyval option"
  typical_p :: "pyval option"
  watermark :: "pyval option"

definition no_kwargs :: kwargs where
  "no_kwargs = \<lparr>model_name = None, best_of = None, decoder_input_details = None,
     details = None, do_sample = None, max_new_tokens = None, repetition_penalty = None,
     return_full_text = None, seed = None, stop = None, temperature = None, top_k = None,
     top_n_tokens = None, top_p = None, truncate_kw = None, typical_p = None,
     watermark = None\<rparr>"

text \<open>Binding of a parameter: the value passed, or else the default of the signature.\<close>

definition arg :: "pyval option \<Rightarrow> pyval \<Rightarrow> pyval" where
  "arg passed dflt = (case passed of Some v \<Rightarrow> v | None \<Rightarrow> dflt)"

definition CHAT_URL :: string where
  "CHAT_URL = ''https://api.genta.tech/chat/''"

definition TEXT_URL :: string where
  "TEXT_URL = ''https://api.genta.tech/text/''"

definition requests_post :: "transport \<Rightarrow> http_call \<Rightarrow> state \<Rightarrow> (exn + response) \<times> state" where
  "requests_post tr c s = (tr c, s\<lparr>sent := sent s @ [c]\<rparr>)"

text \<open>
  The loop at the head of \<^verbatim>\<open>ChatCompletion\<close>:
  \<^verbatim>\<open>
  for i in chat_history:
      if chat_history['role'] not in ['user', 'assistant', 'system']:
          raise ValueError('chat_history must be list of dict with role key: user, assistant, system')
  \<close>
  The body subscripts \<^verbatim>\<open>chat_history\<close>, not the loop variable \<^verbatim>\<open>i\<close>.
\<close>

fun roles_loop :: "pyval \<Rightarrow> pyval list \<Rightarrow> exn + unit" where
  "roles_loop chat_history [] = Inr ()"
| "roles_loop chat_history (i # rest) =
     (case py_getitem chat_history ''role'' of
        Inl e \<Rightarrow> Inl e
      | Inr r \<Rightarrow>
          if r \<notin> set [PyStr ''user'', PyStr ''assistant'', PyStr ''system'']
          then Inl (ValueError
            ''chat_history must be list of dict with role key: user, assistant, system'')
          else roles_loop chat_history rest)"

definition check_roles :: "pyval \<Rightarrow> exn + unit" where
  "check_roles chat_history =
     (case py_iter chat_history of
        Inl e \<Rightarrow> Inl e
      | Inr items \<Rightarrow> roles_loop chat_history items)"

text \<open>The \<^verbatim>\<open>data = {...}\<close> statement of \<^verbatim>\<open>ChatCompletion\<close>.\<close>

definition ChatCompletion_data :: "state \<Rightarrow> pyval \<Rightarrow> kwargs \<Rightarrow> pyval" where
  "ChatCompletion_data s chat_history kw =
     PyDict [
       (''token'', token s),
       (''inputs'', chat_history),
       (''model_name'', arg (model_name kw) (PyStr ''Starstreak'')),
       (''parameters'', PyDict [
         (''best_of'', arg (best_of kw) (PyInt 1)),
         (''decoder_input_details'', arg (decoder_input_details kw) (PyBool True)),
         (''details'', arg (details kw) (PyBool True)),
         (''do_sample'', arg (do_sample kw) (PyBool True)),
         (''max_new_tokens'', arg (max_new_tokens kw) (PyInt 128)),
         (''repetition_penalty'', arg (repetition_penalty kw) (PyFloat 1.03)),
         (''return_full_text'', arg (return_full_text kw) (PyBool False)),
         (''seed'', arg (seed kw) PyNone),
         (''stop'', arg (stop kw) (chat_stop_default s)),
         (''temperature'', arg (temperature kw) (PyFloat 0.7)),
         (''top_k'', arg (top_k kw) (PyInt 50)),
         (''top_n_tokens'', arg (top_n_tokens kw) PyNone),
         (''top_p'', arg (top_p kw) (PyFloat 0.95)),
         (''truncate'', arg (truncate_kw kw) PyNone),
         (''typical_p'', arg (typical_p kw) (PyFloat 0.95)),
         (''watermark'', arg (watermark kw) (PyBool False))])]"

text \<open>
  \<^verbatim>\<open>ChatCompletion\<close>: the role loop, the request body, one POST to the chat
  endpoint, and the pair \<^verbatim>\<open>(response.json(), response.status_code)\<close>. An exception
  of any step ends the call with the state as it is at that point.
\<close>

definition ChatCompletion ::
  "transport \<Rightarrow> pyval \<Rightarrow> kwargs \<Rightarrow> state \<Rightarrow> (exn + pyval \<times> int) \<times> state" where
  "ChatCompletion tr chat_history kw s =
     (case check_roles chat_history of
        Inl e \<Rightarrow> (Inl e, s)
      | Inr _ \<Rightarrow>
          let data = ChatCompletion_data s chat_history kw;
              hdrs = [(''Content-Type'', ''application/json'')]
          in (case requests_post tr \<lparr>url = CHAT_URL, json_payload = data, headers = hdrs\<rparr> s of
                (Inl e, s') \<Rightarrow> (Inl e, s')
              | (Inr resp, s') \<Rightarrow>
                  (case json resp of
                     Inl e \<Rightarrow> (Inl e, s')
                   | Inr body \<Rightarrow> (Inr (body, status_code resp), s'))))"

text \<open>The \<^verbatim>\<open>data = {...}\<close> statement of \<^verbatim>\<open>TextCompletion\<close>.\<close>

definition TextCompletion_data :: "state \<Rightarrow> pyval \<Rightarrow> kwargs \<Rightarrow> pyval" where
  "TextCompletion_data s text kw =
     PyDict [
       (''token'', token s),
       (''inputs'', text),
       (''model_name'', arg (model_name kw) (PyStr ''Starstreak'')),
       (''parameters'', PyDict [
         (''best_of'', arg (best_of kw) (PyInt 1)),
         (''decoder_input_details'', arg (decoder_input_details kw) (PyBool True)),
         (''details'', arg (details kw) (PyBool True)),
         (''do_sample'', arg (do_sample kw) (PyBool True)),
         (''max_new_tokens'', arg (max_new_tokens kw) (PyInt 128)),
         (''repetition_penalty'', arg (repetition_penalty kw) (PyFloat 1.03)),
         (''return_full_text'', arg (return_full_text kw) (PyBool False)),
         (''seed'', arg (seed kw) PyNone),
         (''stop'', arg (stop kw) (text_stop_default s)),
         (''temperature'', arg (temperature kw) (PyFloat 0.7)),
         (''top_k'', arg (top_k kw) (PyInt 50)),
         (''top_n_tokens'', arg (top_n_tokens kw) PyNone),
         (''top_p'', arg (top_p kw) (PyFloat 0.95)),
         (''truncate'', arg (truncate_kw kw) PyNone),
         (''typical_p'', arg (typical_p kw) (PyFloat 0.95)),
         (''watermark'', arg (watermark kw) (PyBool False))])]"

text \<open>\<^verbatim>\<open>TextCompletion\<close>: no check; the request body, one POST to the text endpoint, the pair.\<close>

definition TextCompletion ::
  "transport \<Rightarrow> pyval \<Rightarrow> kwargs \<Rightarrow> state \<Rightarrow> (exn + pyval \<times> int) \<times> state" where
  "TextCompletion tr text kw s =
     (let data = TextCompletion_data s text kw;
          hdrs = [(''Content-Type'', ''application/json'')]
      in (case requests_post tr \<lparr>url = TEXT_URL, json_payload = data, headers = hdrs\<rparr> s of
            (Inl e, s') \<Rightarrow> (Inl e, s')
          | (Inr resp, s') \<Rightarrow>
              (case json resp of
                 Inl e \<Rightarrow> (Inl e, s')
               | Inr body \<Rightarrow> (Inr (body, status_code resp), s'))))"

section \<open>Reading request bodies, callers and test transports\<close>

text \<open>Field access on a dictionary value, for stating what a request body holds.\<close>

fun dict_get :: "pyval \<Rightarrow> string \<Rightarrow> pyval option" where
  "dict_get (PyDict d) k = map_of d k"
| "dict_get v k = None"

fun dict_len :: "pyval \<Rightarrow> nat" where
  "dict_len (PyDict d) = length d"
| "dict_len v = 0"

definition parameter_of :: "http_call \<Rightarrow> string \<Rightarrow> pyval option" where
  "parameter_of c n =
     (case dict_get (json_payload c) ''parameters'' of
        None \<Rightarrow> None
      | Some ps \<Rightarrow> dict_get ps n)"

text \<open>The keyword argument a caller passed under a given parameter name.\<close>

definition passed :: "kwargs \<Rightarrow> string \<Rightarrow> pyval option" where
  "passed kw n =
     (case map_of [
        (''model_name'', model_name kw),
        (''best_of'', best_of kw),
        (''decoder_input_details'', decoder_input_details kw),
        (''details'', details kw),
        (''do_sample'', do_sample kw),
        (''max_new_tokens'', max_new_tokens kw),
        (''repetition_penalty'', repetition_penalty kw),
        (''return_full_text'', return_full_text kw),
        (''seed'', seed kw),
        (''stop'', stop kw),
        (''temperature'', temperature kw),
        (''top_k'', top_k kw),
        (''top_n_tokens'', top_n_tokens kw),
        (''top_p'', top_p kw),
        (''truncate'', truncate_kw kw),
        (''typical_p'', typical_p kw),
        (''watermark'', watermark kw)] n of
        None \<Rightarrow> None
      | Some p \<Rightarrow> p)"

text \<open>
  The table of generation parameter defaults as the specification documents it
  (section 4.1), to compare the request bodies with.
\<close>

definition documented_defaults :: "(string \<times> pyval) list" where
  "documented_defaults = [
     (''best_of'', PyInt 1),
     (''decoder_input_details'', PyBool True),
     (''details'', PyBool True),
     (''do_sample'', PyBool True),
     (''max_new_tokens'', PyInt 128),
     (''repetition_penalty'', PyFloat 1.03),
     (''return_full_text'', PyBool False),
     (''seed'', PyNone),
     (''stop'', PyList []),
     (''temperature'', PyFloat 0.7),
     (''top_k'', PyInt 50),
     (''top_n_tokens'', PyNone),
     (''top_p'', PyFloat 0.95),
     (''truncate'', PyNone),
     (''typical_p'', PyFloat 0.95),
     (''watermark'', PyBool False)]"

text \<open>
  A chat history as the documentation describes it is a list of messages; its roles
  are all valid when every message is a dict whose \<^verbatim>\<open>role\<close> is one of the three
  allowed strings.
\<close>

definition allowed_role :: "pyval \<Rightarrow> bool" where
  "allowed_role m =
     (dict_get m ''role'' \<in> {Some (PyStr ''user''), Some (PyStr ''assistant''),
        Some (PyStr ''system'')})"

definition roles_valid :: "pyval list \<Rightarrow> bool" where
  "roles_valid ms = list_all allowed_role ms"

text \<open>
  A caller's session: the client is constructed with a token and the two operations
  are called one after the other, each in the state the previous one left.
\<close>

datatype call = Chat pyval kwargs | Text pyval kwargs

fun perform :: "transport \<Rightarrow> call \<Rightarrow> state \<Rightarrow> state" where
  "perform tr (Chat chat_history kw) s = snd (ChatCompletion tr chat_history kw s)"
| "perform tr (Text text kw) s = snd (TextCompletion tr text kw s)"

definition session :: "transport \<Rightarrow> pyval \<Rightarrow> call list \<Rightarrow> state" where
  "session tr tok cs = fold (perform tr) cs (init tok)"

text \<open>Two mocked transports: one answers 200 with a generated text, one 500 with an error body.\<close>

definition transport_200 :: transport where
  "transport_200 c = Inr \<lparr>json = Inr (PyDict [(''generated_text'', PyStr ''hi'')]),
     status_code = 200\<rparr>"

definition transport_500 :: transport where
  "transport_500 c = Inr \<lparr>json = Inr (PyDict [(''error'', PyStr ''internal'')]),
     status_code = 500\<rparr>"

definition transport_down :: transport where
  "transport_down c = Inl RequestException"

text \<open>A caller that overrides the model name and every generation parameter.\<close>

definition all_overridden :: kwargs where
  "all_overridden = \<lparr>model_name = Some (PyStr ''Moonraker''), best_of = Some (PyInt 2),
     decoder_input_details = Some (PyBool False), details = Some (PyBool False),
     do_sample = Some (PyBool False), max_new_tokens = Some (PyInt 64),
     repetition_penalty = Some (PyFloat 1.2), return_full_text = Some (PyBool True),
     seed = Some (PyInt 42), stop = Some (PyList [PyStr ''END'']),
     temperature = Some (PyFloat 0.1), top_k = Some (PyInt 10),
     top_n_tokens = Some (PyInt 5), top_p = Some (PyFloat 0.5),
     truncate_kw = Some (PyInt 1000), typical_p = Some (PyFloat 0.5),
     watermark = Some (PyBool True)\<rparr>"

text \<open>Two chat messages: one with an allowed role, one with a role outside the allowed set.\<close>

definition user_message :: pyval where
  "user_message = PyDict [(''role'', PyStr ''user''), (''text'', PyStr ''Hello, how are you?'')]"

definition intruder_message :: pyval where
  "intruder_message = PyDict [(''role'', PyStr ''admin''), (''text'', PyStr ''Hello'')]"

section \<open>Basic facts about the two operations\<close>

lemma check_roles_list:
  "check_roles (PyList xs) = (if xs = [] then Inr () else Inl TypeError)"
  by (cases xs) (simp_all add: check_roles_def)

lemma ChatCompletion_rejected:
  "check_roles ch = Inl e \<Longrightarrow> ChatCompletion tr ch kw s = (Inl e, s)"
  by (simp add: ChatCompletion_def)

lemma ChatCompletion_state:
  "check_roles ch = Inr () \<Longrightarrow>
   snd (ChatCompletion tr ch kw s) =
     s\<lparr>sent := sent s @ [\<lparr>url = CHAT_URL, json_payload = ChatCompletion_data s ch kw,
       headers = [(''Content-Type'', ''application/json'')]\<rparr>]\<rparr>"
  by (simp add: ChatCompletion_def requests_post_def Let_def split: sum.splits)

lemma TextCompletion_state:
  "snd (TextCompletion tr text kw s) =
     s\<lparr>sent := sent s @ [\<lparr>url = TEXT_URL, json_payload = TextCompletion_data s text kw,
       headers = [(''Content-Type'', ''application/json'')]\<rparr>]\<rparr>"
  by (simp add: TextCompletion_def requests_post_def Let_def split: sum.splits)

lemma ChatCompletion_result:
  "check_roles ch = Inr () \<Longrightarrow>
   fst (ChatCompletion tr ch kw s) =
     (case tr \<lparr>url = CHAT_URL, json_payload = ChatCompletion_data s ch kw,
               headers = [(''Content-Type'', ''application/json'')]\<rparr> of
        Inl e \<Rightarrow> Inl e
      | Inr resp \<Rightarrow>
          (case json resp of Inl e \<Rightarrow> Inl e | Inr body \<Rightarrow> Inr (body, status_code resp)))"
  by (simp add: ChatCompletion_def requests_post_def Let_def split: sum.splits)

lemma TextCompletion_result:
  "fst (TextCompletion tr text kw s) =
     (case tr \<lparr>url = TEXT_URL, json_payload = TextCompletion_data s text kw,
               headers = [(''Content-Type'', ''application/json'')]\<rparr> of
        Inl e \<Rightarrow> Inl e
      | Inr resp \<Rightarrow>
          (case json resp of Inl e \<Rightarrow> Inl e | Inr body \<Rightarrow> Inr (body, status_code resp)))"
  by (simp add: TextCompletion_def requests_post_def Let_def split: sum.splits)

lemma ChatCompletion_cases:
  "snd (ChatCompletion tr ch kw s) = s \<or> check_roles ch = Inr ()"
  by (cases "check_roles ch") (simp_all add: ChatCompletion_def)

text \<open>Neither operation writes the token or the default objects.\<close>

lemma TextCompletion_frame:
  "token (snd (TextCompletion tr text kw s)) = token s"
  "chat_stop_default (snd (TextCompletion tr text kw s)) = chat_stop_default s"
  "text_stop_default (snd (TextCompletion tr text kw s)) = text_stop_default s"
  by (simp_all add: TextCompletion_state)

lemma ChatCompletion_frame:
  "token (snd (ChatCompletion tr ch kw s)) = token s"
  "chat_stop_default (snd (ChatCompletion tr ch kw s)) = chat_stop_default s"
  "text_stop_default (snd (ChatCompletion tr ch kw s)) = text_stop_default s"
  using ChatCompletion_cases [of tr ch kw s] by (auto simp add: ChatCompletion_state)

lemma perform_frame:
  "token (perform tr c s) = token s"
  "chat_stop_default (perform tr c s) = chat_stop_default s"
  "text_stop_default (perform tr c s) = text_stop_default s"
  by (cases c; simp add: TextCompletion_frame ChatCompletion_frame)+

lemma fold_perform_frame:
  "token (fold (perform tr) cs s) = token s \<and>
   chat_stop_default (fold (perform tr) cs s) = chat_stop_default s \<and>
   text_stop_default (fold (perform tr) cs s) = text_stop_default s"
  by (induction cs arbitrary: s) (simp_all add: perform_frame)

lemma session_frame:
  "token (session tr tok cs) = tok"
  "chat_stop_default (session tr tok cs) = PyList []"
  "text_stop_default (session tr tok cs) = PyList []"
  by (simp_all add: session_def fold_perform_frame) (simp_all add: init_def)

lemma data_top_fields:
  "dict_get (ChatCompletion_data s ch kw) ''token'' = Some (token s)"
  "dict_get (ChatCompletion_data s ch kw) ''inputs'' = Some ch"
  "dict_get (ChatCompletion_data s ch kw) ''model_name'' =
     Some (arg (model_name kw) (PyStr ''Starstreak''))"
  "dict_get (TextCompletion_data s text kw) ''token'' = Some (token s)"
  "dict_get (TextCompletion_data s text kw) ''inputs'' = Some text"
  "dict_get (TextCompletion_data s text kw) ''model_name'' =
     Some (arg (model_name kw) (PyStr ''Starstreak''))"
  by (simp_all add: ChatCompletion_data_def TextCompletion_data_def)

lemma data_sent_update:
  "ChatCompletion_data (s\<lparr>sent := x\<rparr>) ch kw = ChatCompletion_data s ch kw"
  "TextCompletion_data (s\<lparr>sent := x\<rparr>) text kw = TextCompletion_data s text kw"
  by (simp_all add: ChatCompletion_data_def TextCompletion_data_def)

lemma data_off_model_name:
  assumes "k \<noteq> ''model_name''"
  shows "dict_get (ChatCompletion_data s ch (kw\<lparr>model_name := mn\<rparr>)) k =
           dict_get (ChatCompletion_data s ch kw) k"
    and "dict_get (TextCompletion_data s text (kw\<lparr>model_name := mn\<rparr>)) k =
           dict_get (TextCompletion_data s text kw) k"
  using assms by (simp_all add: ChatCompletion_data_def TextCompletion_data_def)

section \<open>Role validation of \<open>ChatCompletion\<close>\<close>

text \<open>
  Claim C1 says that a chat history with a message whose role is outside
  \<open>{user, assistant, system}\<close> makes \<open>ChatCompletion\<close> fail with a \<open>ValueError\<close>
  before any network I/O. On the history \<open>[{"role": "admin", "text": "Hello"}]\<close> the
  loop subscripts the list with \<open>'role'\<close>: the call ends with a \<open>TypeError\<close>, not
  with the documented \<open>ValueError\<close>; nothing is sent.
\<close>

theorem ChatCompletion_invalid_role_TypeError:
  "\<not> roles_valid [intruder_message] \<and>
   ChatCompletion transport_200 (PyList [intruder_message]) no_kwargs (init (PyStr ''secret''))
     = (Inl TypeError, init (PyStr ''secret''))"
  by (simp add: roles_valid_def allowed_role_def intruder_message_def check_roles_list
      ChatCompletion_rejected)

text \<open>
  Claim C9: for every non-empty chat history (a list), whatever its messages are,
  \<open>ChatCompletion\<close> raises a \<open>TypeError\<close> in the validation loop and leaves the state
  as it was (no request is sent); a list passes the loop exactly when it is empty, and
  the empty history reaches the transport with one request to the chat endpoint.
\<close>

theorem ChatCompletion_nonempty_history_TypeError:
  "(xs \<noteq> [] \<longrightarrow> ChatCompletion tr (PyList xs) kw s = (Inl TypeError, s)) \<and>
   (check_roles (PyList xs) = Inr () \<longleftrightarrow> xs = []) \<and>
   (\<exists>c. sent (snd (ChatCompletion tr (PyList []) kw s)) = sent s @ [c] \<and> url c = CHAT_URL)"
proof (intro conjI impI)
  assume "xs \<noteq> []"
  then have "check_roles (PyList xs) = Inl TypeError"
    by (simp add: check_roles_list)
  then show "ChatCompletion tr (PyList xs) kw s = (Inl TypeError, s)"
    by (rule ChatCompletion_rejected)
next
  show "check_roles (PyList xs) = Inr () \<longleftrightarrow> xs = []"
    by (simp add: check_roles_list)
next
  show "\<exists>c. sent (snd (ChatCompletion tr (PyList []) kw s)) = sent s @ [c] \<and> url c = CHAT_URL"
    by (simp add: ChatCompletion_state check_roles_list)
qed

theorem ChatCompletion_nonempty_history_TypeError_witness:
  "[user_message] \<noteq> [] \<and> roles_valid [user_message] \<and>
   ChatCompletion transport_200 (PyList [user_message]) all_overridden (init (PyStr ''secret''))
     = (Inl TypeError, init (PyStr ''secret''))"
  using ChatCompletion_nonempty_history_TypeError
    [of "[user_message]" transport_200 all_overridden "init (PyStr ''secret'')"]
  by (simp add: roles_valid_def allowed_role_def user_message_def)

section \<open>Request bodies\<close>

text \<open>
  Claim C5: \<open>TextCompletion\<close> called with the text \<open>"Hello"\<close> and no keyword argument
  sends one request to the text endpoint whose \<open>inputs\<close> field is the string
  \<open>"Hello"\<close> itself, not a list or a dict around it.
\<close>

theorem TextCompletion_inputs_literal:
  "\<exists>c. sent (snd (TextCompletion tr (PyStr ''Hello'') no_kwargs s)) = sent s @ [c] \<and>
       url c = TEXT_URL \<and> dict_get (json_payload c) ''inputs'' = Some (PyStr ''Hello'')"
  by (simp add: TextCompletion_state data_top_fields)

text \<open>
  Claim C2, as stated, fails twice. On the history
  \<open>[{"role": "user", "text": "Hello, how are you?"}]\<close>, whose only role is
  allowed, the call ends with a \<open>TypeError\<close> and no body is built; and on the empty
  history, where a body is built, the \<open>parameters\<close> object has 16 entries, not 17.
\<close>

theorem ChatCompletion_valid_roles_counterexample:
  "roles_valid [user_message] \<and>
   ChatCompletion transport_200 (PyList [user_message]) no_kwargs (init (PyStr ''secret''))
     = (Inl TypeError, init (PyStr ''secret'')) \<and>
   roles_valid [] \<and>
   map (\<lambda>c. map_option dict_len (dict_get (json_payload c) ''parameters''))
     (sent (snd (ChatCompletion transport_200 (PyList []) no_kwargs (init (PyStr ''secret'')))))
     = [Some 16]"
  by (simp add: roles_valid_def allowed_role_def user_message_def check_roles_list
      ChatCompletion_rejected ChatCompletion_state ChatCompletion_data_def init_def)

lemma ChatCompletion_parameters:
  "dict_get (ChatCompletion_data s ch kw) ''parameters'' = Some (PyDict [
     (''best_of'', arg (best_of kw) (PyInt 1)),
     (''decoder_input_details'', arg (decoder_input_details kw) (PyBool True)),
     (''details'', arg (details kw) (PyBool True)),
     (''do_sample'', arg (do_sample kw) (PyBool True)),
     (''max_new_tokens'', arg (max_new_tokens kw) (PyInt 128)),
     (''repetition_penalty'', arg (repetition_penalty kw) (PyFloat 1.03)),
     (''return_full_text'', arg (return_full_text kw) (PyBool False)),
     (''seed'', arg (seed kw) PyNone),
     (''stop'', arg (stop kw) (chat_stop_default s)),
     (''temperature'', arg (temperature kw) (PyFloat 0.7)),
     (''top_k'', arg (top_k kw) (PyInt 50)),
     (''top_n_tokens'', arg (top_n_tokens kw) PyNone),
     (''top_p'', arg (top_p kw) (PyFloat 0.95)),
     (''truncate'', arg (truncate_kw kw) PyNone),
     (''typical_p'', arg (typical_p kw) (PyFloat 0.95)),
     (''watermark'', arg (watermark kw) (PyBool False))])"
  by (simp add: ChatCompletion_data_def)

text \<open>
  Claim C2, amended: for every chat history that passes the role loop of
  \<open>ChatCompletion\<close>, in a state where the default object of \<open>stop\<close> is the empty list,
  the request body is built and sent; \<open>model_name\<close> is \<open>'Starstreak'\<close> when the
  caller leaves it out, and the \<open>parameters\<close> object holds exactly the 16 generation
  parameters of the documented table, in its order, each with its documented default
  when the caller leaves it out (all of them when the caller passes no keyword).
\<close>

theorem ChatCompletion_body_defaults:
  assumes "check_roles ch = Inr ()" and "chat_stop_default s = PyList []"
  shows "\<exists>c ps. sent (snd (ChatCompletion tr ch kw s)) = sent s @ [c] \<and>
     (passed kw ''model_name'' = None \<longrightarrow>
        dict_get (json_payload c) ''model_name'' = Some (PyStr ''Starstreak'')) \<and>
     dict_get (json_payload c) ''parameters'' = Some (PyDict ps) \<and>
     map fst ps = map fst documented_defaults \<and> length ps = 16 \<and>
     (\<forall>n. passed kw n = None \<longrightarrow> map_of ps n = map_of documented_defaults n) \<and>
     (kw = no_kwargs \<longrightarrow> ps = documented_defaults)"
proof -
  let ?ps = "[
     (''best_of'', arg (best_of kw) (PyInt 1)),
     (''decoder_input_details'', arg (decoder_input_details kw) (PyBool True)),
     (''details'', arg (details kw) (PyBool True)),
     (''do_sample'', arg (do_sample kw) (PyBool True)),
     (''max_new_tokens'', arg (max_new_tokens kw) (PyInt 128)),
     (''repetition_penalty'', arg (repetition_penalty kw) (PyFloat 1.03)),
     (''return_full_text'', arg (return_full_text kw) (PyBool False)),
     (''seed'', arg (seed kw) PyNone),
     (''stop'', arg (stop kw) (chat_stop_default s)),
     (''temperature'', arg (temperature kw) (PyFloat 0.7)),
     (''top_k'', arg (top_k kw) (PyInt 50)),
     (''top_n_tokens'', arg (top_n_tokens kw) PyNone),
     (''top_p'', arg (top_p kw) (PyFloat 0.95)),
     (''truncate'', arg (truncate_kw kw) PyNone),
     (''typical_p'', arg (typical_p kw) (PyFloat 0.95)),
     (''watermark'', arg (watermark kw) (PyBool False))]"
  let ?c = "\<lparr>url = CHAT_URL, json_payload = ChatCompletion_data s ch kw,
       headers = [(''Content-Type'', ''application/json'')]\<rparr>"
  have 1: "sent (snd (ChatCompletion tr ch kw s)) = sent s @ [?c]"
    using assms(1) by (simp add: ChatCompletion_state)
  have 2: "passed kw ''model_name'' = None \<longrightarrow>
        dict_get (json_payload ?c) ''model_name'' = Some (PyStr ''Starstreak'')"
    by (simp add: passed_def data_top_fields arg_def)
  have 3: "dict_get (json_payload ?c) ''parameters'' = Some (PyDict ?ps)"
    by (simp add: ChatCompletion_parameters)
  have 4: "map fst ?ps = map fst documented_defaults"
    by (simp add: documented_defaults_def)
  have 5: "length ?ps = 16"
    by simp
  have 6: "\<forall>n. passed kw n = None \<longrightarrow> map_of ?ps n = map_of documented_defaults n"
    using assms(2) by (simp add: passed_def documented_defaults_def arg_def)
  have 7: "kw = no_kwargs \<longrightarrow> ?ps = documented_defaults"
    using assms(2) by (simp add: no_kwargs_def documented_defaults_def arg_def)
  show ?thesis
    by (intro exI [of _ ?c] exI [of _ ?ps] conjI 1 2 3 4 5 6 7)
qed

theorem ChatCompletion_body_defaults_witness:
  "check_roles (PyList []) = Inr () \<and>
   chat_stop_default (init (PyStr ''secret'')) = PyList [] \<and>
   (\<exists>c. sent (snd (ChatCompletion transport_200 (PyList []) no_kwargs (init (PyStr ''secret''))))
          = [c] \<and>
        dict_get (json_payload c) ''model_name'' = Some (PyStr ''Starstreak'') \<and>
        dict_get (json_payload c) ''parameters'' = Some (PyDict documented_defaults))"
proof -
  have h1: "check_roles (PyList []) = Inr ()"
    by (simp add: check_roles_list)
  have h2: "chat_stop_default (init (PyStr ''secret'')) = PyList []"
    by (simp add: init_def)
  have h3: "passed no_kwargs ''model_name'' = None"
    by (simp add: passed_def no_kwargs_def)
  have h4: "sent (init (PyStr ''secret'')) = []"
    by (simp add: init_def)
  from ChatCompletion_body_defaults [OF h1 h2, of transport_200 no_kwargs] h3 h4
  have "\<exists>c. sent (snd (ChatCompletion transport_200 (PyList []) no_kwargs
              (init (PyStr ''secret'')))) = [c] \<and>
        dict_get (json_payload c) ''model_name'' = Some (PyStr ''Starstreak'') \<and>
        dict_get (json_payload c) ''parameters'' = Some (PyDict documented_defaults)"
    by auto
  with h1 h2 show ?thesis
    by (intro conjI)
qed

text \<open>
  Claim C4: when the caller passes the model name and every generation parameter, the
  request that \<open>TextCompletion\<close> sends, and the one that \<open>ChatCompletion\<close> sends once the
  history is past the role loop, carries exactly the values passed: no default of the
  signature is left in the body.
\<close>

theorem overrides_carried_exactly:
  assumes "kw = \<lparr>model_name = Some m, best_of = Some p1, decoder_input_details = Some p2,
      details = Some p3, do_sample = Some p4, max_new_tokens = Some p5,
      repetition_penalty = Some p6, return_full_text = Some p7, seed = Some p8,
      stop = Some p9, temperature = Some p10, top_k = Some p11, top_n_tokens = Some p12,
      top_p = Some p13, truncate_kw = Some p14, typical_p = Some p15,
      watermark = Some p16\<rparr>"
    and "ps = PyDict [(''best_of'', p1), (''decoder_input_details'', p2), (''details'', p3),
      (''do_sample'', p4), (''max_new_tokens'', p5), (''repetition_penalty'', p6),
      (''return_full_text'', p7), (''seed'', p8), (''stop'', p9), (''temperature'', p10),
      (''top_k'', p11), (''top_n_tokens'', p12), (''top_p'', p13), (''truncate'', p14),
      (''typical_p'', p15), (''watermark'', p16)]"
  shows "sent (snd (TextCompletion tr text kw s)) = sent s @
       [\<lparr>url = TEXT_URL,
         json_payload = PyDict [(''token'', token s), (''inputs'', text),
           (''model_name'', m), (''parameters'', ps)],
         headers = [(''Content-Type'', ''application/json'')]\<rparr>] \<and>
     (check_roles ch = Inr () \<longrightarrow>
        sent (snd (ChatCompletion tr ch kw s)) = sent s @
          [\<lparr>url = CHAT_URL,
            json_payload = PyDict [(''token'', token s), (''inputs'', ch),
              (''model_name'', m), (''parameters'', ps)],
            headers = [(''Content-Type'', ''application/json'')]\<rparr>])"
  using assms
  by (simp add: TextCompletion_state ChatCompletion_state
      ChatCompletion_data_def TextCompletion_data_def arg_def)

theorem overrides_carried_exactly_witness:
  "map json_payload
     (sent (snd (TextCompletion transport_200 (PyStr ''Hello'') all_overridden
        (init (PyStr ''secret''))))) =
     [PyDict [(''token'', PyStr ''secret''), (''inputs'', PyStr ''Hello''),
        (''model_name'', PyStr ''Moonraker''),
        (''parameters'', PyDict [(''best_of'', PyInt 2),
           (''decoder_input_details'', PyBool False), (''details'', PyBool False),
           (''do_sample'', PyBool False), (''max_new_tokens'', PyInt 64),
           (''repetition_penalty'', PyFloat 1.2), (''return_full_text'', PyBool True),
           (''seed'', PyInt 42), (''stop'', PyList [PyStr ''END'']),
           (''temperature'', PyFloat 0.1), (''top_k'', PyInt 10),
           (''top_n_tokens'', PyInt 5), (''top_p'', PyFloat 0.5),
           (''truncate'', PyInt 1000), (''typical_p'', PyFloat 0.5),
           (''watermark'', PyBool True)])]] \<and>
   check_roles (PyList []) = Inr () \<and>
   map (\<lambda>c. dict_get (json_payload c) ''model_name'')
     (sent (snd (ChatCompletion transport_200 (PyList []) all_overridden
        (init (PyStr ''secret''))))) = [Some (PyStr ''Moonraker'')]"
proof -
  have ok: "check_roles (PyList []) = Inr ()"
    by (simp add: check_roles_list)
  have s0: "sent (init (PyStr ''secret'')) = []" "token (init (PyStr ''secret'')) = PyStr ''secret''"
    by (simp_all add: init_def)
  from overrides_carried_exactly [OF all_overridden_def refl,
      of transport_200 "PyStr ''Hello''" "init (PyStr ''secret'')" "PyList []"]
    ok s0
  show ?thesis
    by simp
qed

text \<open>
  Claim C10: in a state where the two default objects of \<open>stop\<close> hold the same value
  (as they do from module load on), the same keyword arguments give the same
  \<open>parameters\<close> object in the body of \<open>ChatCompletion\<close> and in the body of
  \<open>TextCompletion\<close>, whatever the chat history and the text are; when the history is
  past the role loop these are the objects in the two requests sent.
\<close>

theorem parameters_same_in_both_operations:
  assumes "chat_stop_default s = text_stop_default s"
  shows "(\<exists>ps. dict_get (ChatCompletion_data s ch kw) ''parameters'' = Some ps \<and>
            dict_get (TextCompletion_data s text kw) ''parameters'' = Some ps) \<and>
     (check_roles ch = Inr () \<longrightarrow>
        (\<exists>c1 c2 ps. sent (snd (ChatCompletion tr1 ch kw s)) = sent s @ [c1] \<and>
           sent (snd (TextCompletion tr2 text kw s)) = sent s @ [c2] \<and>
           dict_get (json_payload c1) ''parameters'' = Some ps \<and>
           dict_get (json_payload c2) ''parameters'' = Some ps))"
  using assms
  by (simp add: ChatCompletion_state TextCompletion_state ChatCompletion_data_def
      TextCompletion_data_def)

theorem parameters_same_in_both_operations_witness:
  "chat_stop_default (init (PyStr ''secret'')) = text_stop_default (init (PyStr ''secret'')) \<and>
   dict_get (ChatCompletion_data (init (PyStr ''secret'')) (PyList [user_message]) no_kwargs)
      ''parameters'' =
   dict_get (TextCompletion_data (init (PyStr ''secret'')) (PyStr ''Hello'') no_kwargs)
      ''parameters''"
proof -
  have h: "chat_stop_default (init (PyStr ''secret'')) = text_stop_default (init (PyStr ''secret''))"
    by (simp add: init_def)
  from parameters_same_in_both_operations [OF h, of "PyList [user_message]" no_kwargs
      "PyStr ''Hello''" transport_200 transport_200] h
  show ?thesis
    by auto
qed

section \<open>Responses\<close>

text \<open>
  Claim C3: when a call of \<open>ChatCompletion\<close> or of \<open>TextCompletion\<close> has sent its
  request \<open>c\<close>, the transport has answered it with a response, and the response's
  body deserializes, the call returns the pair of that body and the response's status
  code, whatever the status code is: no status is turned into an exception.
\<close>

theorem completion_returns_response_verbatim:
  "(sent (snd (ChatCompletion tr ch kw s)) = sent s @ [c] \<and> tr c = Inr resp \<and>
      json resp = Inr body
      \<longrightarrow> fst (ChatCompletion tr ch kw s) = Inr (body, status_code resp)) \<and>
   (sent (snd (TextCompletion tr text kw s)) = sent s @ [c'] \<and> tr c' = Inr resp' \<and>
      json resp' = Inr body'
      \<longrightarrow> fst (TextCompletion tr text kw s) = Inr (body', status_code resp'))"
proof (intro conjI impI; elim conjE)
  assume a: "sent (snd (ChatCompletion tr ch kw s)) = sent s @ [c]" "tr c = Inr resp"
    "json resp = Inr body"
  from a(1) have "snd (ChatCompletion tr ch kw s) \<noteq> s"
    by auto
  with ChatCompletion_cases [of tr ch kw s] have ok: "check_roles ch = Inr ()"
    by simp
  with a show "fst (ChatCompletion tr ch kw s) = Inr (body, status_code resp)"
    by (simp add: ChatCompletion_state ChatCompletion_result)
next
  assume a: "sent (snd (TextCompletion tr text kw s)) = sent s @ [c']" "tr c' = Inr resp'"
    "json resp' = Inr body'"
  then show "fst (TextCompletion tr text kw s) = Inr (body', status_code resp')"
    by (simp add: TextCompletion_state TextCompletion_result)
qed

theorem completion_returns_response_verbatim_witness:
  "fst (ChatCompletion transport_500 (PyList []) no_kwargs (init (PyStr ''secret''))) =
     Inr (PyDict [(''error'', PyStr ''internal'')], 500) \<and>
   fst (TextCompletion transport_500 (PyStr ''Hello'') no_kwargs (init (PyStr ''secret''))) =
     Inr (PyDict [(''error'', PyStr ''internal'')], 500)"
proof -
  let ?s = "init (PyStr ''secret'')"
  let ?c = "\<lparr>url = CHAT_URL, json_payload = ChatCompletion_data ?s (PyList []) no_kwargs,
     headers = [(''Content-Type'', ''application/json'')]\<rparr>"
  let ?c' = "\<lparr>url = TEXT_URL, json_payload = TextCompletion_data ?s (PyStr ''Hello'') no_kwargs,
     headers = [(''Content-Type'', ''application/json'')]\<rparr>"
  let ?r = "\<lparr>json = Inr (PyDict [(''error'', PyStr ''internal'')]), status_code = 500\<rparr>"
  have h: "sent (snd (ChatCompletion transport_500 (PyList []) no_kwargs ?s)) = sent ?s @ [?c] \<and>
      transport_500 ?c = Inr ?r \<and> json ?r = Inr (PyDict [(''error'', PyStr ''internal'')])"
    by (simp add: ChatCompletion_state check_roles_list transport_500_def)
  have h': "sent (snd (TextCompletion transport_500 (PyStr ''Hello'') no_kwargs ?s)) =
        sent ?s @ [?c'] \<and>
      transport_500 ?c' = Inr ?r \<and> json ?r = Inr (PyDict [(''error'', PyStr ''internal'')])"
    by (simp add: TextCompletion_state transport_500_def)
  from completion_returns_response_verbatim [of transport_500 "PyList []" no_kwargs ?s ?c ?r
      "PyDict [(''error'', PyStr ''internal'')]" "PyStr ''Hello''" ?c' ?r
      "PyDict [(''error'', PyStr ''internal'')]"] h h'
  show ?thesis
    by simp
qed

text \<open>
  Claim C6: \<open>TextCompletion\<close> checks nothing. For every text and every assignment of
  the keyword arguments it sends one request to the text endpoint with the text under
  \<open>inputs\<close>, and an exception that ends the call is one that the transport or the
  response's \<open>json()\<close> raised: none is raised by the operation itself.
\<close>

theorem TextCompletion_no_validation:
  "\<exists>c. sent (snd (TextCompletion tr text kw s)) = sent s @ [c] \<and> url c = TEXT_URL \<and>
       dict_get (json_payload c) ''inputs'' = Some text \<and>
       (\<forall>e. fst (TextCompletion tr text kw s) = Inl e \<longrightarrow>
            tr c = Inl e \<or> (\<exists>resp. tr c = Inr resp \<and> json resp = Inl e))"
  by (auto simp add: TextCompletion_state TextCompletion_result data_top_fields
      split: sum.splits)

theorem TextCompletion_no_validation_witness:
  "fst (TextCompletion transport_down (PyInt 7) all_overridden (init (PyStr ''secret''))) =
     Inl RequestException \<and>
   (\<exists>c. sent (snd (TextCompletion transport_down (PyInt 7) all_overridden
            (init (PyStr ''secret'')))) = [c] \<and>
        dict_get (json_payload c) ''inputs'' = Some (PyInt 7) \<and>
        transport_down c = Inl RequestException)"
proof -
  have h: "fst (TextCompletion transport_down (PyInt 7) all_overridden (init (PyStr ''secret'')))
      = Inl RequestException"
    by (simp add: TextCompletion_result transport_down_def)
  have s0: "sent (init (PyStr ''secret'')) = []"
    by (simp add: init_def)
  from TextCompletion_no_validation [of transport_down "PyInt 7" all_overridden
      "init (PyStr ''secret'')"] h s0
  show ?thesis
    by (auto simp add: transport_down_def)
qed

section \<open>State across calls\<close>

text \<open>
  Claim C7: neither operation writes the token, so after any sequence of calls the
  client still holds the token it was constructed with, and each request body carries it.
  For two calls one after the other on the same client, with the same input and with
  keyword arguments that differ only in \<open>model_name\<close>, the token after both calls is
  the one before, both bodies carry it, each body has its own model name, and every
  other field of the two bodies is the same. (For \<open>ChatCompletion\<close> this is about
  a history that is past the role loop; otherwise no body is sent.)
\<close>

theorem token_fixed_bodies_differ_in_model_name:
  assumes "kw2 = kw1\<lparr>model_name := mn\<rparr>"
  shows
   "token (session tr0 tok cs) = tok \<and>
    (let s1 = snd (TextCompletion tr1 text kw1 s);
         s2 = snd (TextCompletion tr2 text kw2 s1)
     in token s1 = token s \<and> token s2 = token s \<and>
        (\<exists>c1 c2. sent s2 = sent s @ [c1, c2] \<and>
           dict_get (json_payload c1) ''token'' = Some (token s) \<and>
           dict_get (json_payload c2) ''token'' = Some (token s) \<and>
           dict_get (json_payload c1) ''model_name'' =
             Some (arg (model_name kw1) (PyStr ''Starstreak'')) \<and>
           dict_get (json_payload c2) ''model_name'' = Some (arg mn (PyStr ''Starstreak'')) \<and>
           (\<forall>k. k \<noteq> ''model_name'' \<longrightarrow>
              dict_get (json_payload c1) k = dict_get (json_payload c2) k))) \<and>
    (check_roles ch = Inr () \<longrightarrow>
      (let s1 = snd (ChatCompletion tr1 ch kw1 s);
           s2 = snd (ChatCompletion tr2 ch kw2 s1)
       in token s1 = token s \<and> token s2 = token s \<and>
          (\<exists>c1 c2. sent s2 = sent s @ [c1, c2] \<and>
             dict_get (json_payload c1) ''token'' = Some (token s) \<and>
             dict_get (json_payload c2) ''token'' = Some (token s) \<and>
             dict_get (json_payload c1) ''model_name'' =
               Some (arg (model_name kw1) (PyStr ''Starstreak'')) \<and>
             dict_get (json_payload c2) ''model_name'' = Some (arg mn (PyStr ''Starstreak'')) \<and>
             (\<forall>k. k \<noteq> ''model_name'' \<longrightarrow>
                dict_get (json_payload c1) k = dict_get (json_payload c2) k))))"
proof -
  have text_tok: "token (snd (TextCompletion tr1 text kw1 s)) = token s"
    "token (snd (TextCompletion tr2 text kw2 (snd (TextCompletion tr1 text kw1 s)))) = token s"
    by (simp_all add: TextCompletion_frame)
  have text_sent:
    "sent (snd (TextCompletion tr2 text kw2 (snd (TextCompletion tr1 text kw1 s)))) = sent s @
       [\<lparr>url = TEXT_URL, json_payload = TextCompletion_data s text kw1,
          headers = [(''Content-Type'', ''application/json'')]\<rparr>,
        \<lparr>url = TEXT_URL, json_payload = TextCompletion_data s text kw2,
          headers = [(''Content-Type'', ''application/json'')]\<rparr>]"
    by (simp add: TextCompletion_state data_sent_update)
  have chat_tok: "token (snd (ChatCompletion tr1 ch kw1 s)) = token s"
    "token (snd (ChatCompletion tr2 ch kw2 (snd (ChatCompletion tr1 ch kw1 s)))) = token s"
    by (simp_all add: ChatCompletion_frame)
  have chat_sent:
    "sent (snd (ChatCompletion tr2 ch kw2 (snd (ChatCompletion tr1 ch kw1 s)))) = sent s @
       [\<lparr>url = CHAT_URL, json_payload = ChatCompletion_data s ch kw1,
          headers = [(''Content-Type'', ''application/json'')]\<rparr>,
        \<lparr>url = CHAT_URL, json_payload = ChatCompletion_data s ch kw2,
          headers = [(''Content-Type'', ''application/json'')]\<rparr>]"
    if "check_roles ch = Inr ()"
    using that by (simp add: ChatCompletion_state data_sent_update)
  show ?thesis
    unfolding Let_def
    by (simp add: session_frame text_tok chat_tok text_sent chat_sent data_top_fields)
       (simp add: assms data_off_model_name)
qed

theorem token_fixed_bodies_differ_in_model_name_witness:
  "map (\<lambda>c. (dict_get (json_payload c) ''token'', dict_get (json_payload c) ''model_name''))
     (sent (snd (TextCompletion transport_200 (PyStr ''Hello'')
        (no_kwargs\<lparr>model_name := Some (PyStr ''Moonraker'')\<rparr>)
        (snd (TextCompletion transport_500 (PyStr ''Hello'') no_kwargs
           (init (PyStr ''secret''))))))) =
     [(Some (PyStr ''secret''), Some (PyStr ''Starstreak'')),
      (Some (PyStr ''secret''), Some (PyStr ''Moonraker''))] \<and>
   check_roles (PyList []) = Inr () \<and>
   token (snd (ChatCompletion transport_200 (PyList [])
        (no_kwargs\<lparr>model_name := Some (PyStr ''Moonraker'')\<rparr>)
        (snd (ChatCompletion transport_500 (PyList []) no_kwargs
           (init (PyStr ''secret'')))))) = PyStr ''secret''"
proof -
  have ok: "check_roles (PyList []) = Inr ()"
    by (simp add: check_roles_list)
  have s0: "sent (init (PyStr ''secret'')) = []"
    "token (init (PyStr ''secret'')) = PyStr ''secret''"
    by (simp_all add: init_def)
  have m: "model_name no_kwargs = None"
    by (simp add: no_kwargs_def)
  from token_fixed_bodies_differ_in_model_name [OF refl, of transport_200 "PyStr ''secret''"
      "[]" transport_500 "PyStr ''Hello''" no_kwargs "init (PyStr ''secret'')" transport_200
      "Some (PyStr ''Moonraker'')" "PyList []"] ok s0 m
  show ?thesis
    by (auto simp add: Let_def arg_def)
qed

text \<open>
  Claim C8: in every state that a client reaches from its construction through any
  sequence of calls of the two operations, the default objects of \<open>stop\<close> still hold
  the empty list, so a call that leaves \<open>stop\<close> out sends a body whose \<open>stop\<close> field
  is the empty list: nothing of an earlier call shows in it.
\<close>

theorem stop_default_empty_each_call:
  assumes "s = session tr0 tok cs" and "stop kw = None"
  shows "chat_stop_default s = PyList [] \<and> text_stop_default s = PyList [] \<and>
     (\<exists>c. sent (snd (TextCompletion tr text kw s)) = sent s @ [c] \<and>
          parameter_of c ''stop'' = Some (PyList [])) \<and>
     (check_roles ch = Inr () \<longrightarrow>
        (\<exists>c. sent (snd (ChatCompletion tr ch kw s)) = sent s @ [c] \<and>
             parameter_of c ''stop'' = Some (PyList [])))"
  using assms
  by (simp add: session_frame TextCompletion_state ChatCompletion_state parameter_of_def
      ChatCompletion_data_def TextCompletion_data_def arg_def)

theorem stop_default_empty_each_call_witness:
  "stop no_kwargs = None \<and>
   (\<exists>c. sent (snd (TextCompletion transport_200 (PyStr ''Hello'') no_kwargs
            (session transport_200 (PyStr ''secret'')
               [Text (PyStr ''Hi'') all_overridden, Chat (PyList []) all_overridden]))) =
          sent (session transport_200 (PyStr ''secret'')
               [Text (PyStr ''Hi'') all_overridden, Chat (PyList []) all_overridden]) @ [c] \<and>
        parameter_of c ''stop'' = Some (PyList []))"
proof -
  have h: "stop no_kwargs = None"
    by (simp add: no_kwargs_def)
  from stop_default_empty_each_call [OF refl h, of transport_200 "PyStr ''secret''"
      "[Text (PyStr ''Hi'') all_overridden, Chat (PyList []) all_overridden]"
      transport_200 "PyStr ''Hello''"] h
  show ?thesis
    by blast
qed

end
